theory Spec2Isabelle
  imports Main
begin

section \<open>Common values\<close>

text \<open>
  JavaScript exceptions are values of \<open>error\<close>: \<open>Error msg\<close> is \<^verbatim>\<open>new Error(msg)\<close> and
  \<open>AlreadyReportedError\<close> is the class of that name. A function that may throw returns
  \<open>error + 'a\<close>, with \<open>Inl\<close> for the thrown value. Strings are lists of code units,
  \<^verbatim>\<open>number\<close> values that hold exit codes are \<open>int\<close>, and a value of type
  \<^verbatim>\<open>T | undefined\<close> is a \<open>T option\<close>.
\<close>

datatype error = Error string | AlreadyReportedError

text \<open>JavaScript truthiness of a string and of an optional string.\<close>

definition truthy :: "string \<Rightarrow> bool" where
  "truthy s = (s \<noteq> [])"

definition truthy_opt :: "string option \<Rightarrow> bool" where
  "truthy_opt s = (case s of None \<Rightarrow> False | Some v \<Rightarrow> truthy v)"

text \<open>\<^verbatim>\<open>Array.prototype.join\<close> on an array of strings.\<close>

fun join :: "string \<Rightarrow> string list \<Rightarrow> string" where
  "join sep [] = []"
| "join sep [x] = x"
| "join sep (x # y # ys) = x @ sep @ join sep (y # ys)"

text \<open>Decimal rendering of an integer inside a template literal.\<close>

fun digits_of :: "nat \<Rightarrow> string" where
  "digits_of n =
     (if n < 10 then [''0123456789'' ! n]
      else digits_of (n div 10) @ [''0123456789'' ! (n mod 10)])"

definition string_of_int :: "int \<Rightarrow> string" where
  "string_of_int i = (if i < 0 then ''-'' @ digits_of (nat (- i)) else digits_of (nat i))"

section \<open>GlobalScriptAction\<close>

subsection \<open>Data\<close>

record RushConfiguration =
  commonAutoinstallersFolder :: string
  rushJsonFolder :: string
  commonTempFolder :: string

record IPackageJson =
  packageJson_name :: string

record IEnvironmentPathOptions =
  includeRepoBin :: bool
  additionalPathFolders :: "string list"

record ILifecycleCommandOptions =
  opt_rushConfiguration :: RushConfiguration
  workingDirectory :: string
  initCwd :: string
  handleOutput :: bool
  environmentPathOptions :: IEnvironmentPathOptions

text \<open>
  A custom parameter is known to \<^verbatim>\<open>runAsync\<close> only through its method
  \<^verbatim>\<open>appendToArgList(argList)\<close>, which updates the array it is given.
\<close>

record CustomParameter =
  appendToArgList :: "string list \<Rightarrow> string list"

record IGlobalScriptActionOptions =
  actionName :: string
  rushConfiguration :: RushConfiguration
  shellCommand :: string
  autoinstallerName :: "string option"

text \<open>
  The object: \<open>this_actionName\<close>, \<open>this_rushConfiguration\<close> and \<open>customParameters\<close> are
  the inherited members, the other three are the private fields \<^verbatim>\<open>_shellCommand\<close>,
  \<^verbatim>\<open>_autoinstallerName\<close> and \<^verbatim>\<open>_autoinstallerFullPath\<close>.
\<close>

record GlobalScriptAction =
  this_actionName :: string
  this_rushConfiguration :: RushConfiguration
  customParameters :: "CustomParameter list"
  this_shellCommand :: string
  this_autoinstallerName :: string
  this_autoinstallerFullPath :: string

text \<open>
  The collaborators that the class calls and whose code is not part of the sources are
  parameters of the model: \<^verbatim>\<open>path.join\<close>, \<^verbatim>\<open>os.EOL\<close>, \<^verbatim>\<open>colors.red\<close>,
  \<^verbatim>\<open>FileSystem.exists\<close>, \<^verbatim>\<open>JsonFile.load\<close>, \<^verbatim>\<open>Autoinstaller.validateName\<close>,
  \<^verbatim>\<open>new Autoinstaller(name, cfg).prepareAsync()\<close>, \<^verbatim>\<open>Utilities.executeLifecycleCommand\<close>
  and the base class constructor reached by \<^verbatim>\<open>super(options)\<close>. Each one that can
  throw returns an error value.
\<close>

record Collaborators =
  path_join :: "string list \<Rightarrow> string"
  os_EOL :: string
  colors_red :: "string \<Rightarrow> string"
  FileSystem_exists :: "string \<Rightarrow> bool"
  JsonFile_load :: "string \<Rightarrow> error + IPackageJson"
  Autoinstaller_validateName :: "string \<Rightarrow> error option"
  Autoinstaller_prepareAsync :: "string \<Rightarrow> RushConfiguration \<Rightarrow> error option"
  Utilities_executeLifecycleCommand :: "string \<Rightarrow> ILifecycleCommandOptions \<Rightarrow> error + int"
  BaseScriptAction_super :: "IGlobalScriptActionOptions \<Rightarrow> error option"

text \<open>
  What the class changes outside itself: \<^verbatim>\<open>process.exitCode\<close> and, in the order they
  happen, the completed autoinstaller preparations, the commands handed to
  \<^verbatim>\<open>Utilities.executeLifecycleCommand\<close> and the lines written with \<^verbatim>\<open>console.log\<close>.
  The last three events are those of the class \<^verbatim>\<open>Git\<close> below: a call of
  \<^verbatim>\<open>child_process.spawnSync\<close>, of \<^verbatim>\<open>gitInfo()\<close> and of
  \<^verbatim>\<open>Utilities.executeCommandAndCaptureOutput\<close>.
\<close>

datatype event =
  PrepareCompleted string
| LifecycleCommand string ILifecycleCommandOptions
| ConsoleLog string
| Spawned string "string list"
| GitInfoRead
| CommandRun string "string list" string

record Process =
  exitCode :: "int option"
  events :: "event list"

definition emit :: "event \<Rightarrow> Process \<Rightarrow> Process" where
  "emit e p = p\<lparr>events := events p @ [e]\<rparr>"

fun is_LifecycleCommand :: "event \<Rightarrow> bool" where
  "is_LifecycleCommand (LifecycleCommand c opts) = True"
| "is_LifecycleCommand e = False"

subsection \<open>The constructor\<close>

definition GlobalScriptAction_constructor ::
  "Collaborators \<Rightarrow> IGlobalScriptActionOptions \<Rightarrow> Process \<Rightarrow> (error + GlobalScriptAction) \<times> Process"
where
  \<open>GlobalScriptAction_constructor h options p =
     (case BaseScriptAction_super h options of
        Some e \<Rightarrow> (Inl e, p)
      | None \<Rightarrow>
        let name = (case autoinstallerName options of None \<Rightarrow> [] | Some n \<Rightarrow> if truthy n then n else []);
            this = \<lparr>this_actionName = actionName options,
                    this_rushConfiguration = rushConfiguration options,
                    customParameters = [],
                    this_shellCommand = shellCommand options,
                    this_autoinstallerName = name,
                    this_autoinstallerFullPath = []\<rparr>
        in if truthy name then
             (case Autoinstaller_validateName h name of
                Some e \<Rightarrow> (Inl e, p)
              | None \<Rightarrow>
                let fullPath = path_join h [commonAutoinstallersFolder (rushConfiguration options), name]
                in if \<not> FileSystem_exists h fullPath then
                     (Inl (Error (''The custom command "'' @ actionName options
                        @ ''" specifies an "autoinstallerName" setting''
                        @ '' but the path does not exist: '' @ fullPath)), p)
                   else
                     let packageJsonPath = path_join h [fullPath, ''package.json'']
                     in if \<not> FileSystem_exists h packageJsonPath then
                          (Inl (Error (''The custom command "'' @ actionName options
                             @ ''" specifies an "autoinstallerName" setting''
                             @ '' whose package.json file was not found: '' @ packageJsonPath)), p)
                        else
                          (case JsonFile_load h packageJsonPath of
                             Inl e \<Rightarrow> (Inl e, p)
                           | Inr packageJson \<Rightarrow>
                             if packageJson_name packageJson \<noteq> name then
                               (Inl (Error (''The custom command "'' @ actionName options
                                  @ ''" specifies an "autoinstallerName" setting,''
                                  @ '' but the package.json file's "name" field is not "'' @ name
                                  @ ''": '' @ packageJsonPath)), p)
                             else (Inr (this\<lparr>this_autoinstallerFullPath := fullPath\<rparr>), p)))
           else (Inr (this\<lparr>this_autoinstallerFullPath := []\<rparr>), p))\<close>

subsection \<open>runAsync\<close>

text \<open>
  \<^verbatim>\<open>_prepareAutoinstallerName\<close>: builds the autoinstaller and awaits its
  \<^verbatim>\<open>prepareAsync\<close>; a rejection is thrown to the caller.
\<close>

definition prepareAutoinstallerName ::
  "Collaborators \<Rightarrow> GlobalScriptAction \<Rightarrow> Process \<Rightarrow> (error + unit) \<times> Process"
where
  "prepareAutoinstallerName h this p =
     (case Autoinstaller_prepareAsync h (this_autoinstallerName this) (this_rushConfiguration this) of
        Some e \<Rightarrow> (Inl e, p)
      | None \<Rightarrow> (Inr (), emit (PrepareCompleted (this_autoinstallerName this)) p))"

text \<open>The loop over \<^verbatim>\<open>this.customParameters\<close>, started on the empty array.\<close>

fun collect :: "CustomParameter list \<Rightarrow> string list \<Rightarrow> string list" where
  "collect [] customParameterValues = customParameterValues"
| "collect (customParameter # rest) customParameterValues =
     collect rest (appendToArgList customParameter customParameterValues)"

definition commandLine :: "GlobalScriptAction \<Rightarrow> string" where
  "commandLine this =
     (let customParameterValues = collect (customParameters this) []
      in if length customParameterValues > 0
         then this_shellCommand this @ '' '' @ join '' '' customParameterValues
         else this_shellCommand this)"

definition lifecycleOptions :: "GlobalScriptAction \<Rightarrow> string list \<Rightarrow> ILifecycleCommandOptions" where
  "lifecycleOptions this folders =
     \<lparr>opt_rushConfiguration = this_rushConfiguration this,
      workingDirectory = rushJsonFolder (this_rushConfiguration this),
      initCwd = commonTempFolder (this_rushConfiguration this),
      handleOutput = False,
      environmentPathOptions = \<lparr>includeRepoBin = True, additionalPathFolders = folders\<rparr>\<rparr>"

text \<open>The part of \<^verbatim>\<open>runAsync\<close> from the collection of the parameter values on.\<close>

definition execute ::
  "Collaborators \<Rightarrow> GlobalScriptAction \<Rightarrow> string list \<Rightarrow> Process \<Rightarrow> (error + unit) \<times> Process"
where
  "execute h this folders p =
     (let shellCommand = commandLine this;
          opts = lifecycleOptions this folders;
          p1 = emit (LifecycleCommand shellCommand opts) p
      in case Utilities_executeLifecycleCommand h shellCommand opts of
           Inl e \<Rightarrow> (Inl e, p1)
         | Inr code \<Rightarrow>
           let p2 = p1\<lparr>exitCode := Some code\<rparr>
           in if code > 0 then
                (Inl AlreadyReportedError,
                 emit (ConsoleLog (os_EOL h @ colors_red h
                    (''The script failed with exit code '' @ string_of_int code))) p2)
              else (Inr (), p2))"

definition runAsync ::
  "Collaborators \<Rightarrow> GlobalScriptAction \<Rightarrow> Process \<Rightarrow> (error + unit) \<times> Process"
where
  "runAsync h this p =
     (if truthy (this_autoinstallerName this) then
        (case prepareAutoinstallerName h this p of
           (Inl e, p1) \<Rightarrow> (Inl e, p1)
         | (Inr u, p1) \<Rightarrow>
           execute h this [path_join h [this_autoinstallerFullPath this, ''node_modules'', ''.bin'']] p1)
      else execute h this [] p)"

section \<open>Git\<close>

subsection \<open>Data\<close>

record 'a IResultOrError =
  res_error :: "error option"
  res_result :: "'a option"

text \<open>
  \<^verbatim>\<open>child_process.spawnSync\<close> is called without an \<^verbatim>\<open>encoding\<close> option, so the
  \<^verbatim>\<open>stdout\<close> of its result is a \<^verbatim>\<open>Buffer\<close> of the bytes written, whatever the type
  annotation \<^verbatim>\<open>SpawnSyncReturns<string>\<close> says. A \<^verbatim>\<open>Buffer\<close> is an object, and an object
  is truthy, also when it holds no bytes. \<^verbatim>\<open>status\<close> is \<^verbatim>\<open>null\<close> (\<open>None\<close>) or the exit
  status of the process.
\<close>

datatype Buffer = Buffer string

definition truthy_Buffer :: "Buffer \<Rightarrow> bool" where
  "truthy_Buffer b = True"

definition truthy_path :: "Buffer option \<Rightarrow> bool" where
  "truthy_path path = (case path of None \<Rightarrow> False | Some b \<Rightarrow> truthy_Buffer b)"

record SpawnSyncReturns =
  status :: "int option"
  stdout :: Buffer

record GitRepoInfo =
  sha :: "string option"

text \<open>
  The collaborators of \<^verbatim>\<open>Git\<close>: \<^verbatim>\<open>process.platform\<close>, \<^verbatim>\<open>os.EOL\<close>,
  \<^verbatim>\<open>child_process.spawnSync\<close>, \<^verbatim>\<open>gitInfo()\<close> of the package git-repo-info,
  \<^verbatim>\<open>Utilities.executeCommandAndCaptureOutput\<close>, \<^verbatim>\<open>GitEmailPolicy.getEmailExampleLines\<close>
  and the \<^verbatim>\<open>message\<close> of an error. The answer of \<^verbatim>\<open>spawnSync\<close> may differ from one
  spawn to the next (the tool may be installed in between), so it also depends on the
  number of processes spawned before.
\<close>

record GitCollaborators =
  process_platform :: string
  EOL :: string
  child_process_spawnSync :: "nat \<Rightarrow> string \<Rightarrow> string list \<Rightarrow> SpawnSyncReturns"
  gitInfo :: "error + GitRepoInfo"
  Utilities_executeCommandAndCaptureOutput :: "string \<Rightarrow> string list \<Rightarrow> string \<Rightarrow> error + string"
  GitEmailPolicy_getEmailExampleLines :: "RushConfiguration \<Rightarrow> string list"
  message :: "error \<Rightarrow> string"

text \<open>
  The static fields \<^verbatim>\<open>Git._hasGit\<close> and \<^verbatim>\<open>Git._gitPath\<close>, with the events of the
  process so far. \<open>None\<close> is \<^verbatim>\<open>undefined\<close>. \<^verbatim>\<open>_gitPath\<close> is declared a string and
  holds the \<^verbatim>\<open>stdout\<close> of the probe, a \<^verbatim>\<open>Buffer\<close>.
\<close>

record Git =
  hasGit :: "bool option"
  gitPath :: "Buffer option"
  trace :: "event list"

definition Git_initial :: Git where
  "Git_initial = \<lparr>hasGit = None, gitPath = None, trace = []\<rparr>"

definition record_event :: "event \<Rightarrow> Git \<Rightarrow> Git" where
  "record_event e g = g\<lparr>trace := trace g @ [e]\<rparr>"

fun is_Spawned :: "event \<Rightarrow> bool" where
  "is_Spawned (Spawned c args) = True"
| "is_Spawned e = False"

definition spawn_count :: "Git \<Rightarrow> nat" where
  "spawn_count g = length (filter is_Spawned (trace g))"

text \<open>
  \<^verbatim>\<open>String.prototype.trim\<close>: white space and line terminators are removed at both ends.
  Of these, the code units below 256 are tab, line feed, vertical tab, form feed,
  carriage return, space and no-break space.
\<close>

definition is_space :: "char \<Rightarrow> bool" where
  "is_space c = (c \<in> set [CHR 0x09, CHR 0x0A, CHR 0x0B, CHR 0x0C, CHR 0x0D, CHR 0x20, CHR 0xA0])"

definition trim :: "string \<Rightarrow> string" where
  "trim s = rev (dropWhile is_space (rev (dropWhile is_space s)))"

subsection \<open>Operations\<close>

definition getGitPath :: "GitCollaborators \<Rightarrow> Git \<Rightarrow> Buffer option \<times> Git" where
  "getGitPath h g =
     (let g' =
        (if hasGit g = None then
           let command = (if process_platform h = ''win32'' then ''where'' else ''which'');
               result = child_process_spawnSync h (spawn_count g) command [''git''];
               g1 = record_event (Spawned command [''git'']) g
           in if status result = Some 0
              then g1\<lparr>gitPath := Some (stdout result), hasGit := Some (truthy_Buffer (stdout result))\<rparr>
              else g1
         else g)
      in (gitPath g', g'))"

definition detectIfGitIsSupported :: "GitCollaborators \<Rightarrow> Git \<Rightarrow> (error + bool) \<times> Git" where
  "detectIfGitIsSupported h g =
     (case getGitPath h g of
        (path, g1) \<Rightarrow>
          if truthy_path path then
            (case gitInfo h of
               Inr info \<Rightarrow> (Inr (truthy_opt (sha info)), record_event GitInfoRead g1)
             | Inl e \<Rightarrow> (Inr False, record_event GitInfoRead g1))
          else (Inr False, g1))"

definition tryGetGitEmail :: "GitCollaborators \<Rightarrow> Git \<Rightarrow> string IResultOrError \<times> Git" where
  "tryGetGitEmail h g =
     (case getGitPath h g of
        (path, g1) \<Rightarrow>
          if \<not> truthy_path path then
            (\<lparr>res_error = Some (Error ''Git isn't present on the path''), res_result = None\<rparr>, g1)
          else
            (case Utilities_executeCommandAndCaptureOutput h ''git'' [''config'', ''user.email''] ''.'' of
               Inr out \<Rightarrow>
                 (\<lparr>res_error = None, res_result = Some (trim out)\<rparr>,
                  record_event (CommandRun ''git'' [''config'', ''user.email''] ''.'') g1)
             | Inl e \<Rightarrow>
                 (\<lparr>res_error = Some e, res_result = None\<rparr>,
                  record_event (CommandRun ''git'' [''config'', ''user.email''] ''.'') g1)))"

text \<open>The two diagnostics of \<^verbatim>\<open>getGitEmail\<close>, as the arrays joined with \<^verbatim>\<open>os.EOL\<close>.\<close>

definition errorDiagnostic :: "GitCollaborators \<Rightarrow> error \<Rightarrow> string" where
  "errorDiagnostic h e =
     join (EOL h)
       [''Error: '' @ message h e,
        ''Unable to determine your Git configuration using this command:'',
        [],
        ''    git config user.email'',
        []]"

definition missingEmailDiagnostic :: "GitCollaborators \<Rightarrow> RushConfiguration \<Rightarrow> string" where
  "missingEmailDiagnostic h cfg =
     join (EOL h)
       ([''This operation requires that a git email be specified.'',
         [],
         ''If you didn't configure your email yet, try something like this:'',
         []]
        @ GitEmailPolicy_getEmailExampleLines h cfg @ [[]])"

definition getGitEmail ::
  "GitCollaborators \<Rightarrow> RushConfiguration \<Rightarrow> Git \<Rightarrow> (error + string) \<times> Git"
where
  "getGitEmail h cfg g =
     (case tryGetGitEmail h g of
        (emailResult, g1) \<Rightarrow>
          (case res_error emailResult of
             Some e \<Rightarrow>
               (Inl AlreadyReportedError, record_event (ConsoleLog (errorDiagnostic h e)) g1)
           | None \<Rightarrow>
               (case res_result emailResult of
                  None \<Rightarrow>
                    (Inl AlreadyReportedError,
                     record_event (ConsoleLog (missingEmailDiagnostic h cfg)) g1)
                | Some email \<Rightarrow>
                    if \<not> truthy email then
                      (Inl AlreadyReportedError,
                       record_event (ConsoleLog (missingEmailDiagnostic h cfg)) g1)
                    else (Inr email, g1))))"

section \<open>Test fixtures\<close>

text \<open>
  Concrete collaborators on which the operations are evaluated: a repository under
  \<^verbatim>\<open>/repo\<close> with one autoinstaller \<^verbatim>\<open>my-task\<close>, paths joined with a slash, a
  lifecycle command that ends with the given exit code, and a machine whose answers to the
  probe, to \<^verbatim>\<open>gitInfo()\<close> and to \<^verbatim>\<open>git config user.email\<close> are given.
\<close>

definition fixture_configuration :: RushConfiguration where
  "fixture_configuration =
     \<lparr>commonAutoinstallersFolder = ''/repo/common/autoinstallers'',
      rushJsonFolder = ''/repo'',
      commonTempFolder = ''/repo/common/temp''\<rparr>"

definition fixture_collaborators :: "string list \<Rightarrow> string \<Rightarrow> int \<Rightarrow> Collaborators" where
  "fixture_collaborators files packageName code =
     \<lparr>path_join = join ''/'',
      os_EOL = [CHR 0x0A],
      colors_red = (\<lambda>s. s),
      FileSystem_exists = (\<lambda>path. path \<in> set files),
      JsonFile_load = (\<lambda>path. Inr \<lparr>packageJson_name = packageName\<rparr>),
      Autoinstaller_validateName = (\<lambda>n. None),
      Autoinstaller_prepareAsync = (\<lambda>n cfg. None),
      Utilities_executeLifecycleCommand = (\<lambda>c opts. Inr code),
      BaseScriptAction_super = (\<lambda>options. None)\<rparr>"

definition fixture_files :: "string list" where
  "fixture_files =
     [''/repo/common/autoinstallers/my-task'',
      ''/repo/common/autoinstallers/my-task/package.json'']"

definition fixture_options :: "string option \<Rightarrow> IGlobalScriptActionOptions" where
  "fixture_options autoinstaller =
     \<lparr>actionName = ''my-command'',
      rushConfiguration = fixture_configuration,
      shellCommand = ''node tool.js'',
      autoinstallerName = autoinstaller\<rparr>"

definition fixture_parameter :: "string list \<Rightarrow> CustomParameter" where
  "fixture_parameter values = \<lparr>appendToArgList = (\<lambda>argList. argList @ values)\<rparr>"

definition fixture_action :: "string \<Rightarrow> CustomParameter list \<Rightarrow> GlobalScriptAction" where
  "fixture_action autoinstaller parameters =
     \<lparr>this_actionName = ''my-command'',
      this_rushConfiguration = fixture_configuration,
      customParameters = parameters,
      this_shellCommand = ''node tool.js'',
      this_autoinstallerName = autoinstaller,
      this_autoinstallerFullPath =
        (if autoinstaller = [] then [] else ''/repo/common/autoinstallers/'' @ autoinstaller)\<rparr>"

definition Process_initial :: Process where
  "Process_initial = \<lparr>exitCode = None, events = []\<rparr>"

definition fixture_git ::
  "(nat \<Rightarrow> SpawnSyncReturns) \<Rightarrow> error + GitRepoInfo \<Rightarrow> error + string \<Rightarrow> GitCollaborators"
where
  \<open>fixture_git probe info email =
     \<lparr>process_platform = ''linux'',
      EOL = [CHR 0x0A],
      child_process_spawnSync = (\<lambda>n command args. probe n),
      gitInfo = info,
      Utilities_executeCommandAndCaptureOutput = (\<lambda>command args cwd. email),
      GitEmailPolicy_getEmailExampleLines = (\<lambda>cfg. [''    git config --local user.email "example@contoso.com"'']),
      message = (\<lambda>e. case e of Error m \<Rightarrow> m | AlreadyReportedError \<Rightarrow> ''An error occurred.'')\<rparr>\<close>

definition probe_found :: "nat \<Rightarrow> SpawnSyncReturns" where
  "probe_found n = \<lparr>status = Some 0, stdout = Buffer (''/usr/bin/git'' @ [CHR 0x0A])\<rparr>"

definition probe_empty :: "nat \<Rightarrow> SpawnSyncReturns" where
  "probe_empty n = \<lparr>status = Some 0, stdout = Buffer []\<rparr>"

definition probe_missing :: "nat \<Rightarrow> SpawnSyncReturns" where
  "probe_missing n = \<lparr>status = Some 1, stdout = Buffer []\<rparr>"

definition probe_installed_later :: "nat \<Rightarrow> SpawnSyncReturns" where
  "probe_installed_later n = (if n = 0 then probe_missing n else probe_found n)"

section \<open>Scheduler and executor\<close>

subsection \<open>Data\<close>

text \<open>
  Modelled from the spec: the operation graph, the run options and the state of the
  scheduler (sections 3, 4.4 and 6). The code of the scheduler is not among the sources.
  An operation has a unique key and the keys of its predecessors; the run options hold
  the concurrency limit, the failure policy and whether the cache is enabled; an operation
  is in one of the seven states of the state machine. The scheduler keeps the status of
  every operation, its count of pending predecessors, the ready queue and a pool of
  worker slots of fixed size, each idle (\<open>None\<close>) or holding the operation it executes,
  and it remembers whether a failure has occurred.
\<close>

record Operation =
  key :: string
  predecessors :: "string list"

type_synonym OperationGraph = "Operation list"

datatype OperationStatus = PENDING | READY | EXECUTING | CACHE_HIT | SUCCESS | FAILURE | SKIPPED

datatype FailurePolicy = FailFast | Continue

record RunOptions =
  maxConcurrency :: nat
  failurePolicy :: FailurePolicy
  cacheEnabled :: bool

record Scheduler =
  statusOf :: "string \<Rightarrow> OperationStatus"
  pendingPredecessors :: "string \<Rightarrow> nat"
  readyQueue :: "string list"
  workerPool :: "string option list"
  failureSeen :: bool

text \<open>Modelled from the spec: the keys of the operations of a graph, each once.\<close>

definition keys :: "OperationGraph \<Rightarrow> string list" where
  "keys g = remdups (map key g)"

text \<open>
  Modelled from the spec: the successors of an operation, the operations that have it
  among their predecessors.
\<close>

definition successors :: "OperationGraph \<Rightarrow> string \<Rightarrow> string list" where
  "successors g k = [key operation. operation \<leftarrow> g, k \<in> set (predecessors operation)]"

text \<open>Modelled from the spec: the predecessors of the operation with a given key.\<close>

definition predecessorsOf :: "OperationGraph \<Rightarrow> string \<Rightarrow> string list" where
  "predecessorsOf g k =
     (case find (\<lambda>operation. key operation = k) g of
        None \<Rightarrow> []
      | Some operation \<Rightarrow> predecessors operation)"

subsection \<open>The algorithm\<close>

text \<open>
  Modelled from the spec: the start of a run. ``Initially, all Operations with zero
  predecessors are enqueued''; they are \<open>READY\<close>, the others \<open>PENDING\<close>. The worker pool
  has ``size = configured concurrency'' and every slot is idle.
\<close>

definition Scheduler_initial :: "OperationGraph \<Rightarrow> RunOptions \<Rightarrow> Scheduler" where
  "Scheduler_initial g options =
     \<lparr>statusOf = (\<lambda>k. if k \<in> set (keys g) \<and> predecessorsOf g k = [] then READY else PENDING),
      pendingPredecessors = (\<lambda>k. length (predecessorsOf g k)),
      readyQueue = [k \<leftarrow> keys g. predecessorsOf g k = []],
      workerPool = replicate (maxConcurrency options) None,
      failureSeen = False\<rparr>"

text \<open>
  Modelled from the spec: the number of operations of the graph that are \<open>PENDING\<close> or
  \<open>READY\<close>. It bounds the propagation of \<open>SKIPPED\<close> below.
\<close>

definition waiting :: "OperationGraph \<Rightarrow> Scheduler \<Rightarrow> nat" where
  "waiting g s = length [k \<leftarrow> keys g. statusOf s k = PENDING \<or> statusOf s k = READY]"

text \<open>
  Modelled from the spec: ``none of its predecessors \<open>FAILURE\<close>/\<open>SKIPPED\<close>'', the side
  condition for a successor to become \<open>READY\<close>.
\<close>

definition noPredecessorFailed :: "OperationGraph \<Rightarrow> Scheduler \<Rightarrow> string \<Rightarrow> bool" where
  "noPredecessorFailed g s k =
     list_all (\<lambda>p. statusOf s p \<noteq> FAILURE \<and> statusOf s p \<noteq> SKIPPED) (predecessorsOf g k)"

text \<open>
  Modelled from the spec: what follows a terminal transition. The work list holds the
  successors still to visit, each with the status in which its predecessor ended. ``On an
  Operation's terminal transition, decrement the pending-predecessor count of each
  successor; any successor reaching zero pending predecessors (and none of its
  predecessors \<open>FAILURE\<close>/\<open>SKIPPED\<close>) becomes \<open>READY\<close> and is enqueued. If any predecessor
  is \<open>FAILURE\<close> or \<open>SKIPPED\<close>, the successor transitions directly to \<open>SKIPPED\<close> without
  executing.'' \<open>SKIPPED\<close> is reachable from \<open>PENDING\<close> and \<open>READY\<close> and is itself terminal,
  so the successors of a skipped operation are visited in turn. The function is total:
  every skip takes an operation of the graph out of \<open>PENDING\<close> or \<open>READY\<close> for good.
\<close>

function onTerminal ::
  "OperationGraph \<Rightarrow> (string \<times> OperationStatus) list \<Rightarrow> Scheduler \<Rightarrow> Scheduler"
where
  "onTerminal g [] s = s"
| "onTerminal g ((k, ended) # rest) s =
     (let s1 = s\<lparr>pendingPredecessors := (pendingPredecessors s)(k := pendingPredecessors s k - 1)\<rparr>
      in if k \<in> set (keys g) \<and> (statusOf s1 k = PENDING \<or> statusOf s1 k = READY)
            \<and> (ended = FAILURE \<or> ended = SKIPPED) then
           onTerminal g (map (\<lambda>successor. (successor, SKIPPED)) (successors g k) @ rest)
             (s1\<lparr>statusOf := (statusOf s1)(k := SKIPPED), readyQueue := removeAll k (readyQueue s1)\<rparr>)
         else if statusOf s1 k = PENDING \<and> pendingPredecessors s1 k = 0 \<and> noPredecessorFailed g s1 k then
           onTerminal g rest (s1\<lparr>statusOf := (statusOf s1)(k := READY), readyQueue := readyQueue s1 @ [k]\<rparr>)
         else onTerminal g rest s1)"
  by pat_completeness auto
termination
proof (relation "measures [\<lambda>(g, work, s). waiting g s, \<lambda>(g, work, s). length work]")
  show "wf (measures [\<lambda>(g, work, s). waiting g s, \<lambda>(g, work, s). length work])"
    by simp
next
  fix g :: OperationGraph and k ended rest and s s1 :: Scheduler
  assume s1: "s1 = s\<lparr>pendingPredecessors := (pendingPredecessors s)(k := pendingPredecessors s k - 1)\<rparr>"
    and skip: "k \<in> set (keys g) \<and> (statusOf s1 k = PENDING \<or> statusOf s1 k = READY)
      \<and> (ended = FAILURE \<or> ended = SKIPPED)"
  let ?P = "\<lambda>x. statusOf s x = PENDING \<or> statusOf s x = READY"
  let ?Q = "\<lambda>x. x \<noteq> k \<and> ?P x"
  have "filter ?Q (keys g) = filter (\<lambda>x. x \<noteq> k) (filter ?P (keys g))"
    by (simp add: conj_commute)
  moreover have "k \<in> set (filter ?P (keys g))"
    using skip s1 by simp
  ultimately have "length (filter ?Q (keys g)) < length (filter ?P (keys g))"
    using length_filter_less[of k "filter ?P (keys g)" "\<lambda>x. x \<noteq> k"] by simp
  moreover have "(\<lambda>x. ((statusOf s1)(k := SKIPPED)) x = PENDING \<or> ((statusOf s1)(k := SKIPPED)) x = READY) = ?Q"
    by (rule ext) (simp add: s1)
  ultimately have "waiting g (s1\<lparr>statusOf := (statusOf s1)(k := SKIPPED), readyQueue := removeAll k (readyQueue s1)\<rparr>)
      < waiting g s"
    by (simp add: waiting_def)
  then show "((g, map (\<lambda>successor. (successor, SKIPPED)) (successors g k) @ rest,
        s1\<lparr>statusOf := (statusOf s1)(k := SKIPPED), readyQueue := removeAll k (readyQueue s1)\<rparr>),
       g, (k, ended) # rest, s)
      \<in> measures [\<lambda>(g, work, s). waiting g s, \<lambda>(g, work, s). length work]"
    by simp
next
  fix g :: OperationGraph and k ended rest and s s1 :: Scheduler
  assume s1: "s1 = s\<lparr>pendingPredecessors := (pendingPredecessors s)(k := pendingPredecessors s k - 1)\<rparr>"
    and ready: "statusOf s1 k = PENDING \<and> pendingPredecessors s1 k = 0 \<and> noPredecessorFailed g s1 k"
  have "(\<lambda>x. ((statusOf s1)(k := READY)) x = PENDING \<or> ((statusOf s1)(k := READY)) x = READY)
      = (\<lambda>x. statusOf s x = PENDING \<or> statusOf s x = READY)"
    using ready by (intro ext) (auto simp: s1)
  then have "waiting g (s1\<lparr>statusOf := (statusOf s1)(k := READY), readyQueue := readyQueue s1 @ [k]\<rparr>) = waiting g s"
    by (simp add: waiting_def)
  then show "((g, rest, s1\<lparr>statusOf := (statusOf s1)(k := READY), readyQueue := readyQueue s1 @ [k]\<rparr>),
       g, (k, ended) # rest, s)
      \<in> measures [\<lambda>(g, work, s). waiting g s, \<lambda>(g, work, s). length work]"
    by simp
next
  fix g :: OperationGraph and k ended rest and s s1 :: Scheduler
  assume s1: "s1 = s\<lparr>pendingPredecessors := (pendingPredecessors s)(k := pendingPredecessors s k - 1)\<rparr>"
  then have "waiting g s1 = waiting g s"
    by (simp add: waiting_def)
  then show "((g, rest, s1), g, (k, ended) # rest, s)
      \<in> measures [\<lambda>(g, work, s). waiting g s, \<lambda>(g, work, s). length work]"
    by simp
qed

text \<open>
  Modelled from the spec: what happens to the scheduler. \<open>Dispatch worker hit\<close>: the
  worker takes the next operation from the ready queue and hands it to the operation
  runner, which finds a cache entry for its fingerprint (\<open>hit\<close>) or not.
  \<open>Complete worker succeeded\<close>: the process of the operation that the worker executes
  ends, with success or with a failure (a non-zero exit, a crash, a timeout or a forced
  termination).
\<close>

datatype SchedulerEvent = Dispatch nat bool | Complete nat bool

text \<open>
  Modelled from the spec: ``A fixed-size worker pool dequeues ready Operations and
  dispatches them to the Operation Runner.'' Only an idle worker of the pool dequeues,
  and under \<open>fail-fast\<close> nothing is dispatched ``once any failure occurs''. The runner
  ``first consults the Result Cache; on hit, \<dots> returns immediately without invoking the
  underlying process'': the operation is \<open>CACHE_HIT\<close>, which is terminal. On a miss the
  operation is \<open>EXECUTING\<close> on the worker. \<open>None\<close>: the event cannot happen in this state.
\<close>

definition dispatch ::
  "OperationGraph \<Rightarrow> RunOptions \<Rightarrow> nat \<Rightarrow> bool \<Rightarrow> Scheduler \<Rightarrow> Scheduler option"
where
  "dispatch g options worker hit s =
     (if worker < length (workerPool s) \<and> workerPool s ! worker = None
         \<and> \<not> (failurePolicy options = FailFast \<and> failureSeen s) then
        (case readyQueue s of
           [] \<Rightarrow> None
         | k # rest \<Rightarrow>
             if hit \<and> cacheEnabled options then
               Some (onTerminal g (map (\<lambda>successor. (successor, CACHE_HIT)) (successors g k))
                 (s\<lparr>statusOf := (statusOf s)(k := CACHE_HIT), readyQueue := rest\<rparr>))
             else
               Some (s\<lparr>statusOf := (statusOf s)(k := EXECUTING), readyQueue := rest,
                       workerPool := (workerPool s)[worker := Some k]\<rparr>))
      else None)"

text \<open>
  Modelled from the spec: the end of an execution. The operation becomes \<open>SUCCESS\<close> or
  \<open>FAILURE\<close>, its worker is idle again, and the terminal transition is followed through
  the successors.
\<close>

definition complete :: "OperationGraph \<Rightarrow> nat \<Rightarrow> bool \<Rightarrow> Scheduler \<Rightarrow> Scheduler option" where
  "complete g worker succeeded s =
     (if worker < length (workerPool s) then
        (case workerPool s ! worker of
           None \<Rightarrow> None
         | Some k \<Rightarrow>
             let ended = (if succeeded then SUCCESS else FAILURE)
             in Some (onTerminal g (map (\<lambda>successor. (successor, ended)) (successors g k))
                  (s\<lparr>statusOf := (statusOf s)(k := ended),
                     workerPool := (workerPool s)[worker := None],
                     failureSeen := (failureSeen s \<or> \<not> succeeded)\<rparr>)))
      else None)"

text \<open>Modelled from the spec: one step of the scheduler, as a critical section.\<close>

fun step :: "OperationGraph \<Rightarrow> RunOptions \<Rightarrow> SchedulerEvent \<Rightarrow> Scheduler \<Rightarrow> Scheduler option" where
  "step g options (Dispatch worker hit) s = dispatch g options worker hit s"
| "step g options (Complete worker succeeded) s = complete g worker succeeded s"

text \<open>
  Modelled from the spec: a run, as the states that the scheduler goes through under a
  sequence of events, from the first state to the one after the last event that can
  happen.
\<close>

fun runStates ::
  "OperationGraph \<Rightarrow> RunOptions \<Rightarrow> SchedulerEvent list \<Rightarrow> Scheduler \<Rightarrow> Scheduler list"
where
  "runStates g options [] s = [s]"
| "runStates g options (event # rest) s =
     s # (case step g options event s of None \<Rightarrow> [] | Some s' \<Rightarrow> runStates g options rest s')"

text \<open>Modelled from the spec: the number of operations of the graph that are \<open>EXECUTING\<close>.\<close>

definition executingCount :: "OperationGraph \<Rightarrow> Scheduler \<Rightarrow> nat" where
  "executingCount g s = length [k \<leftarrow> keys g. statusOf s k = EXECUTING]"

text \<open>
  Modelled from the spec: ``\<open>EXECUTING\<close>: dispatched to the Operation Runner'', so every
  operation in that state is held by a worker of the pool.
\<close>

definition executingOnWorkers :: "Scheduler \<Rightarrow> bool" where
  "executingOnWorkers s = (\<forall>k. statusOf s k = EXECUTING \<longrightarrow> Some k \<in> set (workerPool s))"

text \<open>
  The scenario of the spec, \<^verbatim>\<open>core\<close>, \<^verbatim>\<open>lib\<close> on \<^verbatim>\<open>core\<close> and \<^verbatim>\<open>app\<close> on \<^verbatim>\<open>lib\<close>,
  with two operations that depend on nothing, run on two workers.
\<close>

definition fixture_graph :: OperationGraph where
  "fixture_graph =
     [\<lparr>key = ''core'', predecessors = []\<rparr>,
      \<lparr>key = ''lib'', predecessors = [''core'']\<rparr>,
      \<lparr>key = ''app'', predecessors = [''lib'']\<rparr>,
      \<lparr>key = ''docs'', predecessors = []\<rparr>,
      \<lparr>key = ''site'', predecessors = []\<rparr>]"

definition fixture_run_options :: RunOptions where
  "fixture_run_options = \<lparr>maxConcurrency = 2, failurePolicy = Continue, cacheEnabled = True\<rparr>"

definition fixture_schedule :: "SchedulerEvent list" where
  "fixture_schedule = [Dispatch 0 False, Dispatch 1 False, Complete 0 False, Dispatch 0 False]"

section \<open>Properties of GlobalScriptAction\<close>

declare digits_of.simps [simp del]

lemmas fixture_defs =
  fixture_collaborators_def fixture_files_def fixture_options_def fixture_parameter_def
  fixture_action_def fixture_configuration_def Process_initial_def

lemmas runAsync_defs =
  runAsync_def execute_def prepareAutoinstallerName_def commandLine_def lifecycleOptions_def
  emit_def truthy_def string_of_int_def Let_def

lemma execute_events:
  "execute h this folders p = (r, p') \<Longrightarrow>
   \<exists>rest. events p' = events p @ LifecycleCommand (commandLine this) (lifecycleOptions this folders) # rest
      \<and> (\<forall>ev \<in> set rest. \<not> is_LifecycleCommand ev)"
  by (auto simp: execute_def Let_def emit_def split: sum.splits if_splits)


lemma runAsync_cases:
  "runAsync h this p = (r, p') \<Longrightarrow>
   (truthy (this_autoinstallerName this) \<and>
      (\<exists>e. Autoinstaller_prepareAsync h (this_autoinstallerName this) (this_rushConfiguration this) = Some e
           \<and> r = Inl e \<and> p' = p))
   \<or> (truthy (this_autoinstallerName this) \<and>
      Autoinstaller_prepareAsync h (this_autoinstallerName this) (this_rushConfiguration this) = None \<and>
      execute h this [path_join h [this_autoinstallerFullPath this, ''node_modules'', ''.bin'']]
        (emit (PrepareCompleted (this_autoinstallerName this)) p) = (r, p'))
   \<or> (\<not> truthy (this_autoinstallerName this) \<and> execute h this [] p = (r, p'))"
  by (auto simp: runAsync_def prepareAutoinstallerName_def split: option.splits if_splits)

text \<open>
  Whatever lifecycle command an invocation hands over is the one command line of the
  action, with the options built from the search path folders of the action, and the rest
  of the invocation is \<open>execute\<close> on them.
\<close>

lemma runAsync_command:
  assumes "runAsync h this p = (r, p')" "events p' = events p @ evs" "LifecycleCommand c opts \<in> set evs"
  shows "c = commandLine this \<and> (\<exists>folders q. opts = lifecycleOptions this folders \<and> execute h this folders q = (r, p')
     \<and> events q @ [LifecycleCommand c opts] = events p @ takeWhile (\<lambda>ev. \<not> is_LifecycleCommand ev) evs @ [LifecycleCommand c opts]
     \<and> folders = (if truthy (this_autoinstallerName this) then [path_join h [this_autoinstallerFullPath this, ''node_modules'', ''.bin'']] else []))"
  using runAsync_cases[OF assms(1)] assms(2,3)
  apply (elim disjE conjE exE)
    apply simp
  subgoal by (frule execute_events) (force simp: emit_def)
  subgoal by (frule execute_events) (force simp: emit_def)
  done




text \<open>
  C2. The constructor changes nothing outside the object, so no command has been executed
  when it throws. For a non-empty \<^verbatim>\<open>autoinstallerName\<close> \<open>n\<close>, with \<open>fullPath\<close> the
  autoinstaller folder and \<open>packageJsonPath\<close> its \<^verbatim>\<open>package.json\<close>: the constructor
  throws whenever the folder does not exist, or the file does not exist, or the file is
  loaded and its \<^verbatim>\<open>name\<close> differs from \<open>n\<close>, and what it throws is an \<^verbatim>\<open>Error\<close> with a
  message when the base constructor and \<^verbatim>\<open>Autoinstaller.validateName\<close> have not thrown
  before; it returns an object only when all three checks pass, and the object then has
  the name \<open>n\<close> and the folder \<open>fullPath\<close>.
\<close>

theorem constructor_autoinstaller_checks:
  assumes "autoinstallerName options = Some n" and "n \<noteq> []"
    and "fullPath = path_join h [commonAutoinstallersFolder (rushConfiguration options), n]"
    and "packageJsonPath = path_join h [fullPath, ''package.json'']"
    and "GlobalScriptAction_constructor h options p = (r, p')"
  shows "p' = p
    \<and> ((\<not> FileSystem_exists h fullPath \<or> \<not> FileSystem_exists h packageJsonPath
          \<or> (\<exists>packageJson. JsonFile_load h packageJsonPath = Inr packageJson \<and> packageJson_name packageJson \<noteq> n))
        \<longrightarrow> (\<exists>e. r = Inl e)
          \<and> (BaseScriptAction_super h options = None \<and> Autoinstaller_validateName h n = None
              \<longrightarrow> (\<exists>msg. r = Inl (Error msg))))
    \<and> (\<forall>this. r = Inr this \<longrightarrow>
          FileSystem_exists h fullPath \<and> FileSystem_exists h packageJsonPath
          \<and> (\<exists>packageJson. JsonFile_load h packageJsonPath = Inr packageJson \<and> packageJson_name packageJson = n)
          \<and> this_autoinstallerName this = n \<and> this_autoinstallerFullPath this = fullPath)"
  using assms
  by (auto simp: GlobalScriptAction_constructor_def truthy_def Let_def
      split: option.splits sum.splits if_splits)

theorem constructor_autoinstaller_checks_witness:
  "(\<exists>this. GlobalScriptAction_constructor (fixture_collaborators fixture_files ''my-task'' 0)
        (fixture_options (Some ''my-task'')) Process_initial = (Inr this, Process_initial)
      \<and> this_autoinstallerFullPath this = ''/repo/common/autoinstallers/my-task'')
   \<and> (\<exists>msg. GlobalScriptAction_constructor (fixture_collaborators [] ''my-task'' 0)
        (fixture_options (Some ''my-task'')) Process_initial = (Inl (Error msg), Process_initial))
   \<and> (\<exists>msg. GlobalScriptAction_constructor (fixture_collaborators fixture_files ''other'' 0)
        (fixture_options (Some ''my-task'')) Process_initial = (Inl (Error msg), Process_initial))"
proof -
  let ?options = "fixture_options (Some ''my-task'')"
  have name: "autoinstallerName ?options = Some ''my-task''" and nonempty: "''my-task'' \<noteq> []"
    by (simp_all add: fixture_defs)
  have paths:
    "''/repo/common/autoinstallers/my-task''
       = path_join (fixture_collaborators files packageName 0)
           [commonAutoinstallersFolder (rushConfiguration ?options), ''my-task'']"
    "''/repo/common/autoinstallers/my-task/package.json''
       = path_join (fixture_collaborators files packageName 0)
           [''/repo/common/autoinstallers/my-task'', ''package.json'']"
    for files packageName
    by (simp_all add: fixture_defs)
  have ok: "GlobalScriptAction_constructor (fixture_collaborators fixture_files ''my-task'' 0)
      ?options Process_initial = (Inr (fixture_action ''my-task'' []), Process_initial)"
    by (simp add: GlobalScriptAction_constructor_def truthy_def fixture_defs Let_def)
  obtain r1 where missing: "GlobalScriptAction_constructor (fixture_collaborators [] ''my-task'' 0)
      ?options Process_initial = (r1, Process_initial)"
    by (simp add: GlobalScriptAction_constructor_def truthy_def fixture_defs Let_def)
  obtain r2 where other: "GlobalScriptAction_constructor (fixture_collaborators fixture_files ''other'' 0)
      ?options Process_initial = (r2, Process_initial)"
    by (simp add: GlobalScriptAction_constructor_def truthy_def fixture_defs Let_def)
  have "this_autoinstallerFullPath (fixture_action ''my-task'' []) = ''/repo/common/autoinstallers/my-task''"
    using constructor_autoinstaller_checks[OF name nonempty paths ok] by simp
  moreover have "\<exists>msg. r1 = Inl (Error msg)"
    using constructor_autoinstaller_checks[OF name nonempty paths missing]
    by (simp add: fixture_collaborators_def)
  moreover have "\<exists>msg. r2 = Inl (Error msg)"
    using constructor_autoinstaller_checks[OF name nonempty paths other]
    by (simp add: fixture_collaborators_def fixture_files_def)
  ultimately show ?thesis using ok missing other by auto
qed

text \<open>
  C3. An invocation of \<^verbatim>\<open>runAsync\<close> on an action with a non-empty autoinstaller name
  either has its \<^verbatim>\<open>prepareAsync\<close> rejected, and then throws that error with no command
  executed, or completes the preparation first and executes the command next, with
  \<^verbatim>\<open>additionalPathFolders\<close> holding the one path \<^verbatim>\<open>node_modules/.bin\<close> under the
  autoinstaller folder. With an empty name nothing is prepared and
  \<^verbatim>\<open>additionalPathFolders\<close> is empty. In both cases no second command follows.
\<close>

theorem runAsync_prepares_autoinstaller:
  assumes "runAsync h this p = (r, p')"
  shows "(this_autoinstallerName this \<noteq> [] \<longrightarrow>
           (\<forall>e. Autoinstaller_prepareAsync h (this_autoinstallerName this) (this_rushConfiguration this) = Some e
              \<longrightarrow> r = Inl e \<and> p' = p)
         \<and> (Autoinstaller_prepareAsync h (this_autoinstallerName this) (this_rushConfiguration this) = None
              \<longrightarrow> (\<exists>c opts rest. events p' = events p @
                      PrepareCompleted (this_autoinstallerName this) # LifecycleCommand c opts # rest
                    \<and> additionalPathFolders (environmentPathOptions opts)
                        = [path_join h [this_autoinstallerFullPath this, ''node_modules'', ''.bin'']]
                    \<and> (\<forall>ev \<in> set rest. \<not> is_LifecycleCommand ev))))
    \<and> (this_autoinstallerName this = [] \<longrightarrow>
           (\<exists>c opts rest. events p' = events p @ LifecycleCommand c opts # rest
              \<and> additionalPathFolders (environmentPathOptions opts) = []
              \<and> (\<forall>ev \<in> set rest. \<not> is_LifecycleCommand ev)))"
proof -
  have opts: "additionalPathFolders (environmentPathOptions (lifecycleOptions this folders)) = folders"
    for folders by (simp add: lifecycleOptions_def)
  from runAsync_cases[OF assms] show ?thesis
  proof (elim disjE conjE exE)
    fix e
    assume "truthy (this_autoinstallerName this)"
      "Autoinstaller_prepareAsync h (this_autoinstallerName this) (this_rushConfiguration this) = Some e"
      "r = Inl e" "p' = p"
    then show ?thesis by (simp add: truthy_def)
  next
    assume t: "truthy (this_autoinstallerName this)"
      and prep: "Autoinstaller_prepareAsync h (this_autoinstallerName this) (this_rushConfiguration this) = None"
      and ex: "execute h this [path_join h [this_autoinstallerFullPath this, ''node_modules'', ''.bin'']]
        (emit (PrepareCompleted (this_autoinstallerName this)) p) = (r, p')"
    from execute_events[OF ex] obtain rest where
      "events p' = events p @ PrepareCompleted (this_autoinstallerName this) #
         LifecycleCommand (commandLine this)
           (lifecycleOptions this [path_join h [this_autoinstallerFullPath this, ''node_modules'', ''.bin'']]) # rest"
      "\<forall>ev \<in> set rest. \<not> is_LifecycleCommand ev"
      by (auto simp: emit_def)
    with t prep opts show ?thesis unfolding truthy_def by fastforce
  next
    assume t: "\<not> truthy (this_autoinstallerName this)" and ex: "execute h this [] p = (r, p')"
    from execute_events[OF ex] obtain rest where
      "events p' = events p @ LifecycleCommand (commandLine this) (lifecycleOptions this []) # rest"
      "\<forall>ev \<in> set rest. \<not> is_LifecycleCommand ev"
      by auto
    with t opts show ?thesis unfolding truthy_def by fastforce
  qed
qed

theorem runAsync_prepares_autoinstaller_witness:
  "events (snd (runAsync (fixture_collaborators fixture_files ''my-task'' 0)
       (fixture_action ''my-task'' []) Process_initial))
     = [PrepareCompleted ''my-task'',
        LifecycleCommand ''node tool.js''
          (lifecycleOptions (fixture_action ''my-task'' [])
             [''/repo/common/autoinstallers/my-task/node_modules/.bin''])]
   \<and> events (snd (runAsync (fixture_collaborators fixture_files ''my-task'' 0)
       (fixture_action [] []) Process_initial))
     = [LifecycleCommand ''node tool.js'' (lifecycleOptions (fixture_action [] []) [])]
   \<and> runAsync ((fixture_collaborators fixture_files ''my-task'' 0)
         \<lparr>Autoinstaller_prepareAsync := (\<lambda>n cfg. Some (Error ''install failed''))\<rparr>)
       (fixture_action ''my-task'' []) Process_initial
     = (Inl (Error ''install failed''), Process_initial)"
proof -
  let ?h = "fixture_collaborators fixture_files ''my-task'' 0"
  let ?failing = "?h\<lparr>Autoinstaller_prepareAsync := (\<lambda>n cfg. Some (Error ''install failed''))\<rparr>"
  obtain r1 p1 where run1: "runAsync ?h (fixture_action ''my-task'' []) Process_initial = (r1, p1)"
    and ev1: "events p1 = [PrepareCompleted ''my-task'',
        LifecycleCommand ''node tool.js''
          (lifecycleOptions (fixture_action ''my-task'' [])
             [''/repo/common/autoinstallers/my-task/node_modules/.bin''])]"
    by (simp add: runAsync_defs fixture_defs)
  obtain r2 p2 where run2: "runAsync ?h (fixture_action [] []) Process_initial = (r2, p2)"
    and ev2: "events p2 = [LifecycleCommand ''node tool.js'' (lifecycleOptions (fixture_action [] []) [])]"
    by (simp add: runAsync_defs fixture_defs)
  obtain r3 p3 where run3: "runAsync ?failing (fixture_action ''my-task'' []) Process_initial = (r3, p3)"
    by (cases "runAsync ?failing (fixture_action ''my-task'' []) Process_initial") simp
  have "\<exists>c opts rest. events p1 = PrepareCompleted ''my-task'' # LifecycleCommand c opts # rest
      \<and> additionalPathFolders (environmentPathOptions opts)
          = [''/repo/common/autoinstallers/my-task/node_modules/.bin'']"
    using runAsync_prepares_autoinstaller[OF run1]
    by (simp add: fixture_defs) blast
  moreover have "\<exists>c opts rest. events p2 = LifecycleCommand c opts # rest
      \<and> additionalPathFolders (environmentPathOptions opts) = []"
    using runAsync_prepares_autoinstaller[OF run2]
    by (simp add: fixture_defs) blast
  moreover have "r3 = Inl (Error ''install failed'') \<and> p3 = Process_initial"
    using runAsync_prepares_autoinstaller[OF run3]
    by (simp add: fixture_defs)
  ultimately show ?thesis using run1 ev1 run2 ev2 run3 by simp
qed

text \<open>Joining with a separator puts the separator between the elements.\<close>

lemma join_concat: "xs \<noteq> [] \<Longrightarrow> sep @ join sep xs = concat (map ((@) sep) xs)"
  by (induction sep xs rule: join.induct) auto

text \<open>
  C4. The command string that an invocation of \<^verbatim>\<open>runAsync\<close> hands to
  \<^verbatim>\<open>Utilities.executeLifecycleCommand\<close> is the configured \<^verbatim>\<open>shellCommand\<close> when the
  collected parameter values are empty, and otherwise \<^verbatim>\<open>shellCommand\<close>, one space and the
  values joined with single spaces, that is \<^verbatim>\<open>shellCommand\<close> followed by a space and the
  value for each value in turn. The boundary receives this one string and the options,
  which hold no argument list.
\<close>

theorem runAsync_command_string:
  assumes "runAsync h this p = (r, p')"
    and "events p' = events p @ evs"
    and "LifecycleCommand c opts \<in> set evs"
    and "values = collect (customParameters this) []"
  shows "(values = [] \<longrightarrow> c = this_shellCommand this)
    \<and> (values \<noteq> [] \<longrightarrow> c = this_shellCommand this @ '' '' @ join '' '' values)
    \<and> c = this_shellCommand this @ concat (map ((@) '' '') values)"
proof -
  from runAsync_command[OF assms(1-3)] have c: "c = commandLine this" by blast
  show ?thesis
  proof (cases "values = []")
    case True
    with c assms(4) show ?thesis by (simp add: commandLine_def)
  next
    case False
    with c assms(4) have "c = this_shellCommand this @ '' '' @ join '' '' values"
      by (simp add: commandLine_def)
    with False join_concat[OF False, of "'' ''"] show ?thesis by simp
  qed
qed

theorem runAsync_command_string_witness:
  "LifecycleCommand ''node tool.js --flag --name x''
      (lifecycleOptions (fixture_action [] [fixture_parameter [''--flag''], fixture_parameter [''--name'', ''x'']]) [])
     \<in> set (events (snd (runAsync (fixture_collaborators fixture_files ''my-task'' 0)
          (fixture_action [] [fixture_parameter [''--flag''], fixture_parameter [''--name'', ''x'']])
          Process_initial)))
   \<and> collect [fixture_parameter [''--flag''], fixture_parameter [''--name'', ''x'']] []
       = [''--flag'', ''--name'', ''x'']
   \<and> ''node tool.js --flag --name x'' = ''node tool.js'' @ '' '' @ join '' '' [''--flag'', ''--name'', ''x'']"
proof -
  let ?h = "fixture_collaborators fixture_files ''my-task'' 0"
  let ?action = "fixture_action [] [fixture_parameter [''--flag''], fixture_parameter [''--name'', ''x'']]"
  let ?event = "LifecycleCommand ''node tool.js --flag --name x'' (lifecycleOptions ?action [])"
  obtain r p' where run: "runAsync ?h ?action Process_initial = (r, p')"
    and evs: "events p' = events Process_initial @ [?event]"
    by (simp add: runAsync_defs fixture_defs)
  have mem: "?event \<in> set [?event]"
    by simp
  have collected: "[''--flag'', ''--name'', ''x''] = collect (customParameters ?action) []"
    by (simp add: fixture_defs)
  have "''node tool.js --flag --name x'' = ''node tool.js'' @ '' '' @ join '' '' [''--flag'', ''--name'', ''x'']"
    using runAsync_command_string[OF run evs mem collected]
    by (simp add: fixture_action_def)
  with run evs collected show ?thesis
    by (simp add: fixture_action_def Process_initial_def)
qed

section \<open>Properties of Git\<close>

lemmas git_defs =
  getGitPath_def detectIfGitIsSupported_def tryGetGitEmail_def getGitEmail_def
  record_event_def spawn_count_def truthy_path_def truthy_Buffer_def truthy_opt_def truthy_def Let_def

lemmas git_fixture_defs =
  fixture_git_def probe_found_def probe_empty_def probe_missing_def probe_installed_later_def
  Git_initial_def

text \<open>What \<^verbatim>\<open>getGitPath\<close> returns is the static field as the call leaves it.\<close>

lemma getGitPath_returns_field: "fst (getGitPath h g) = gitPath (snd (getGitPath h g))"
  by (simp add: getGitPath_def Let_def)

text \<open>Once \<^verbatim>\<open>_hasGit\<close> is set, a call spawns nothing and changes nothing.\<close>

lemma getGitPath_cached: "hasGit g \<noteq> None \<Longrightarrow> getGitPath h g = (gitPath g, g)"
  by (auto simp: getGitPath_def)

text \<open>A probe that ends with status 0 sets \<^verbatim>\<open>_hasGit\<close>, so it is the last probe.\<close>

lemma getGitPath_probe_succeeds:
  "hasGit g = None \<Longrightarrow>
   status (child_process_spawnSync h (spawn_count g)
      (if process_platform h = ''win32'' then ''where'' else ''which'') [''git'']) = Some 0 \<Longrightarrow>
   hasGit (snd (getGitPath h g)) \<noteq> None"
  by (simp add: getGitPath_def Let_def record_event_def)

text \<open>What \<^verbatim>\<open>getGitPath\<close> returns is truthy exactly when it is not \<^verbatim>\<open>undefined\<close>.\<close>

lemma truthy_path_defined: "truthy_path path \<longleftrightarrow> path \<noteq> None"
  by (simp add: truthy_path_def truthy_Buffer_def split: option.splits)

text \<open>
  C5, at the failing input: a machine on which \<^verbatim>\<open>which git\<close> ends with status 1. Two
  successive calls of \<^verbatim>\<open>getGitPath\<close>, from the initial static fields, spawn the probe
  twice, and \<^verbatim>\<open>_hasGit\<close> is still undefined afterwards. When git is installed between the
  two calls, the first returns \<^verbatim>\<open>undefined\<close> and the second the path.
\<close>

theorem getGitPath_probe_repeated:
  "trace (snd (getGitPath (fixture_git probe_missing (Inl (Error [])) (Inl (Error [])))
      (snd (getGitPath (fixture_git probe_missing (Inl (Error [])) (Inl (Error []))) Git_initial))))
     = [Spawned ''which'' [''git''], Spawned ''which'' [''git'']]
   \<and> hasGit (snd (getGitPath (fixture_git probe_missing (Inl (Error [])) (Inl (Error [])))
      (snd (getGitPath (fixture_git probe_missing (Inl (Error [])) (Inl (Error []))) Git_initial))))
     = None
   \<and> fst (getGitPath (fixture_git probe_installed_later (Inl (Error [])) (Inl (Error []))) Git_initial)
     = None
   \<and> fst (getGitPath (fixture_git probe_installed_later (Inl (Error [])) (Inl (Error [])))
      (snd (getGitPath (fixture_git probe_installed_later (Inl (Error [])) (Inl (Error []))) Git_initial)))
     = Some (Buffer (''/usr/bin/git'' @ [CHR 0x0A]))"
  by (simp add: git_defs git_fixture_defs)



text \<open>
  C9. The record that \<^verbatim>\<open>tryGetGitEmail\<close> returns has exactly one of its two fields
  set: \<^verbatim>\<open>error\<close> when \<^verbatim>\<open>getGitPath\<close> finds no path (it returns \<^verbatim>\<open>undefined\<close>) or the
  git command throws (and then it is the thrown value), \<^verbatim>\<open>result\<close> with the trimmed
  output when the command returns.
\<close>

theorem tryGetGitEmail_exactly_one_field:
  "((res_error (fst (tryGetGitEmail h g)) = None) \<noteq> (res_result (fst (tryGetGitEmail h g)) = None))
   \<and> (fst (getGitPath h g) = None \<longrightarrow>
        fst (tryGetGitEmail h g) = \<lparr>res_error = Some (Error ''Git isn't present on the path''), res_result = None\<rparr>)
   \<and> (fst (getGitPath h g) \<noteq> None \<longrightarrow>
        (\<forall>e. Utilities_executeCommandAndCaptureOutput h ''git'' [''config'', ''user.email''] ''.'' = Inl e
           \<longrightarrow> fst (tryGetGitEmail h g) = \<lparr>res_error = Some e, res_result = None\<rparr>)
      \<and> (\<forall>out. Utilities_executeCommandAndCaptureOutput h ''git'' [''config'', ''user.email''] ''.'' = Inr out
           \<longrightarrow> fst (tryGetGitEmail h g) = \<lparr>res_error = None, res_result = Some (trim out)\<rparr>))"
  by (cases "getGitPath h g") (auto simp: tryGetGitEmail_def truthy_path_defined split: sum.splits)

theorem tryGetGitEmail_exactly_one_field_witness:
  "fst (tryGetGitEmail (fixture_git probe_missing (Inl (Error [])) (Inr ''bob@example.com'')) Git_initial)
     = \<lparr>res_error = Some (Error ''Git isn't present on the path''), res_result = None\<rparr>
   \<and> fst (tryGetGitEmail (fixture_git probe_found (Inl (Error [])) (Inl (Error ''exit code 1''))) Git_initial)
     = \<lparr>res_error = Some (Error ''exit code 1''), res_result = None\<rparr>
   \<and> fst (tryGetGitEmail (fixture_git probe_found (Inl (Error [])) (Inr (''bob@example.com'' @ [CHR 0x0A]))) Git_initial)
     = \<lparr>res_error = None, res_result = Some ''bob@example.com''\<rparr>
   \<and> fst (tryGetGitEmail (fixture_git probe_empty (Inl (Error [])) (Inr (''bob@example.com'' @ [CHR 0x0A]))) Git_initial)
     = \<lparr>res_error = None, res_result = Some ''bob@example.com''\<rparr>"
proof -
  let ?missing = "fixture_git probe_missing (Inl (Error [])) (Inr ''bob@example.com'')"
  let ?failing = "fixture_git probe_found (Inl (Error [])) (Inl (Error ''exit code 1''))"
  let ?configured = "fixture_git probe_found (Inl (Error [])) (Inr (''bob@example.com'' @ [CHR 0x0A]))"
  let ?empty = "fixture_git probe_empty (Inl (Error [])) (Inr (''bob@example.com'' @ [CHR 0x0A]))"
  have trimmed: "trim (''bob@example.com'' @ [CHR 0x0A]) = ''bob@example.com''"
    by (simp add: trim_def is_space_def)
  have "fst (getGitPath ?missing Git_initial) = None"
    by (simp add: git_defs git_fixture_defs)
  with tryGetGitEmail_exactly_one_field[of ?missing Git_initial]
  have 1: "fst (tryGetGitEmail ?missing Git_initial)
      = \<lparr>res_error = Some (Error ''Git isn't present on the path''), res_result = None\<rparr>"
    by blast
  have "fst (getGitPath ?failing Git_initial) \<noteq> None"
    and "Utilities_executeCommandAndCaptureOutput ?failing ''git'' [''config'', ''user.email''] ''.''
      = Inl (Error ''exit code 1'')"
    by (simp_all add: git_defs git_fixture_defs)
  with tryGetGitEmail_exactly_one_field[of ?failing Git_initial]
  have 2: "fst (tryGetGitEmail ?failing Git_initial) = \<lparr>res_error = Some (Error ''exit code 1''), res_result = None\<rparr>"
    by blast
  have "fst (getGitPath ?configured Git_initial) \<noteq> None"
    and "Utilities_executeCommandAndCaptureOutput ?configured ''git'' [''config'', ''user.email''] ''.''
      = Inr (''bob@example.com'' @ [CHR 0x0A])"
    by (simp_all add: git_defs git_fixture_defs)
  with tryGetGitEmail_exactly_one_field[of ?configured Git_initial]
  have 3: "fst (tryGetGitEmail ?configured Git_initial)
      = \<lparr>res_error = None, res_result = Some (trim (''bob@example.com'' @ [CHR 0x0A]))\<rparr>"
    by blast
  have "fst (getGitPath ?empty Git_initial) \<noteq> None"
    and "Utilities_executeCommandAndCaptureOutput ?empty ''git'' [''config'', ''user.email''] ''.''
      = Inr (''bob@example.com'' @ [CHR 0x0A])"
    by (simp_all add: git_defs git_fixture_defs)
  with tryGetGitEmail_exactly_one_field[of ?empty Git_initial]
  have 4: "fst (tryGetGitEmail ?empty Git_initial)
      = \<lparr>res_error = None, res_result = Some (trim (''bob@example.com'' @ [CHR 0x0A]))\<rparr>"
    by blast
  from 1 2 3 4 trimmed show ?thesis by simp
qed

text \<open>
  C7. A call of \<^verbatim>\<open>getGitEmail\<close> either returns the trimmed output of
  \<^verbatim>\<open>git config user.email\<close> and prints nothing, or prints one diagnostic and throws
  \<^verbatim>\<open>AlreadyReportedError\<close>. It throws exactly when git is not present on the path
  (\<^verbatim>\<open>getGitPath\<close> returns \<^verbatim>\<open>undefined\<close>), or the git command throws, or the trimmed
  output is empty.
\<close>

theorem getGitEmail_returns_or_reports:
  "((\<exists>out. Utilities_executeCommandAndCaptureOutput h ''git'' [''config'', ''user.email''] ''.'' = Inr out
        \<and> getGitEmail h cfg g = (Inr (trim out), snd (tryGetGitEmail h g)))
    \<or> (\<exists>diagnostic. getGitEmail h cfg g
          = (Inl AlreadyReportedError, record_event (ConsoleLog diagnostic) (snd (tryGetGitEmail h g)))))
   \<and> (fst (getGitEmail h cfg g) = Inl AlreadyReportedError \<longleftrightarrow>
        fst (getGitPath h g) = None
        \<or> (\<exists>e. Utilities_executeCommandAndCaptureOutput h ''git'' [''config'', ''user.email''] ''.'' = Inl e)
        \<or> (\<exists>out. Utilities_executeCommandAndCaptureOutput h ''git'' [''config'', ''user.email''] ''.'' = Inr out
              \<and> trim out = []))"
  by (cases "getGitPath h g")
    (auto simp: getGitEmail_def tryGetGitEmail_def truthy_path_defined truthy_def split: sum.splits)

theorem getGitEmail_returns_or_reports_witness:
  "fst (getGitEmail (fixture_git probe_missing (Inl (Error [])) (Inr ''bob@example.com'')) fixture_configuration
       Git_initial) = Inl AlreadyReportedError
   \<and> fst (getGitEmail (fixture_git probe_found (Inl (Error [])) (Inl (Error ''exit code 1''))) fixture_configuration
       Git_initial) = Inl AlreadyReportedError
   \<and> fst (getGitEmail (fixture_git probe_found (Inl (Error [])) (Inr ''  '')) fixture_configuration
       Git_initial) = Inl AlreadyReportedError
   \<and> fst (getGitEmail (fixture_git probe_found (Inl (Error [])) (Inr (''bob@example.com'' @ [CHR 0x0A])))
       fixture_configuration Git_initial) = Inr ''bob@example.com''
   \<and> fst (getGitEmail (fixture_git probe_empty (Inl (Error [])) (Inr (''bob@example.com'' @ [CHR 0x0A])))
       fixture_configuration Git_initial) = Inr ''bob@example.com''"
proof -
  let ?missing = "fixture_git probe_missing (Inl (Error [])) (Inr ''bob@example.com'')"
  let ?failing = "fixture_git probe_found (Inl (Error [])) (Inl (Error ''exit code 1''))"
  let ?blank = "fixture_git probe_found (Inl (Error [])) (Inr ''  '')"
  let ?configured = "fixture_git probe_found (Inl (Error [])) (Inr (''bob@example.com'' @ [CHR 0x0A]))"
  let ?empty = "fixture_git probe_empty (Inl (Error [])) (Inr (''bob@example.com'' @ [CHR 0x0A]))"
  have "fst (getGitPath ?missing Git_initial) = None"
    by (simp add: git_defs git_fixture_defs)
  with getGitEmail_returns_or_reports[of ?missing fixture_configuration Git_initial]
  have 1: "fst (getGitEmail ?missing fixture_configuration Git_initial) = Inl AlreadyReportedError"
    by blast
  have "\<exists>e. Utilities_executeCommandAndCaptureOutput ?failing ''git'' [''config'', ''user.email''] ''.'' = Inl e"
    by (simp add: fixture_git_def)
  with getGitEmail_returns_or_reports[of ?failing fixture_configuration Git_initial]
  have 2: "fst (getGitEmail ?failing fixture_configuration Git_initial) = Inl AlreadyReportedError"
    by blast
  have "\<exists>out. Utilities_executeCommandAndCaptureOutput ?blank ''git'' [''config'', ''user.email''] ''.'' = Inr out
      \<and> trim out = []"
    by (simp add: fixture_git_def trim_def is_space_def)
  with getGitEmail_returns_or_reports[of ?blank fixture_configuration Git_initial]
  have 3: "fst (getGitEmail ?blank fixture_configuration Git_initial) = Inl AlreadyReportedError"
    by blast
  have trimmed: "trim (''bob@example.com'' @ [CHR 0x0A]) = ''bob@example.com''"
    by (simp add: trim_def is_space_def)
  have path: "fst (getGitPath ?configured Git_initial) \<noteq> None"
    by (simp add: git_defs git_fixture_defs)
  have out: "Utilities_executeCommandAndCaptureOutput ?configured ''git'' [''config'', ''user.email''] ''.''
      = Inr (''bob@example.com'' @ [CHR 0x0A])"
    by (simp add: fixture_git_def)
  from getGitEmail_returns_or_reports[of ?configured fixture_configuration Git_initial] path out trimmed
  have "fst (getGitEmail ?configured fixture_configuration Git_initial) \<noteq> Inl AlreadyReportedError"
    by simp
  with getGitEmail_returns_or_reports[of ?configured fixture_configuration Git_initial] out trimmed
  have 4: "fst (getGitEmail ?configured fixture_configuration Git_initial) = Inr ''bob@example.com''"
    by auto
  have path': "fst (getGitPath ?empty Git_initial) \<noteq> None"
    by (simp add: git_defs git_fixture_defs)
  have out': "Utilities_executeCommandAndCaptureOutput ?empty ''git'' [''config'', ''user.email''] ''.''
      = Inr (''bob@example.com'' @ [CHR 0x0A])"
    by (simp add: fixture_git_def)
  from getGitEmail_returns_or_reports[of ?empty fixture_configuration Git_initial] path' out' trimmed
  have "fst (getGitEmail ?empty fixture_configuration Git_initial) \<noteq> Inl AlreadyReportedError"
    by simp
  with getGitEmail_returns_or_reports[of ?empty fixture_configuration Git_initial] out' trimmed
  have 5: "fst (getGitEmail ?empty fixture_configuration Git_initial) = Inr ''bob@example.com''"
    by auto
  from 1 2 3 4 5 show ?thesis by simp
qed

text \<open>
  C10, at the failing input: a machine on which the probe ends with status 0 and writes
  nothing, in a repository whose info has a \<^verbatim>\<open>sha\<close>. The \<^verbatim>\<open>stdout\<close> of the probe is an
  empty \<^verbatim>\<open>Buffer\<close>, which is truthy: \<^verbatim>\<open>getGitPath\<close> caches it with \<^verbatim>\<open>_hasGit\<close> true and
  returns it, and \<^verbatim>\<open>detectIfGitIsSupported\<close> goes on to call \<^verbatim>\<open>gitInfo()\<close> and returns
  \<^verbatim>\<open>true\<close>.
\<close>

theorem detectIfGitIsSupported_empty_probe:
  "getGitPath (fixture_git probe_empty (Inr \<lparr>sha = Some ''0a1b2c''\<rparr>) (Inl (Error []))) Git_initial
     = (Some (Buffer []),
        \<lparr>hasGit = Some True, gitPath = Some (Buffer []), trace = [Spawned ''which'' [''git'']]\<rparr>)
   \<and> detectIfGitIsSupported (fixture_git probe_empty (Inr \<lparr>sha = Some ''0a1b2c''\<rparr>) (Inl (Error []))) Git_initial
     = (Inr True,
        \<lparr>hasGit = Some True, gitPath = Some (Buffer []),
         trace = [Spawned ''which'' [''git''], GitInfoRead]\<rparr>)"
  by (simp add: git_defs git_fixture_defs)

section \<open>Properties of the scheduler\<close>


text \<open>Following a terminal transition leaves the worker pool and every \<open>EXECUTING\<close> status as they are.\<close>

lemma onTerminal_workerPool: "workerPool (onTerminal g work s) = workerPool s"
  by (induction g work s rule: onTerminal.induct) (auto simp: Let_def)

lemma onTerminal_executing:
  "statusOf (onTerminal g work s) x = EXECUTING \<longleftrightarrow> statusOf s x = EXECUTING"
  by (induction g work s rule: onTerminal.induct) (auto simp: Let_def)

text \<open>Each event keeps every executing operation on a worker, and the pool at its size.\<close>

lemma dispatch_preserves:
  assumes "executingOnWorkers s" and "dispatch g options worker hit s = Some s'"
  shows "executingOnWorkers s' \<and> length (workerPool s') = length (workerPool s)"
proof -
  from assms(2) obtain k rest where q: "readyQueue s = k # rest"
    and idle: "worker < length (workerPool s)" "workerPool s ! worker = None"
    by (auto simp: dispatch_def split: if_splits list.splits)
  show ?thesis
  proof (cases "hit \<and> cacheEnabled options")
    case True
    with assms(2) q idle have "s' = onTerminal g (map (\<lambda>successor. (successor, CACHE_HIT)) (successors g k))
        (s\<lparr>statusOf := (statusOf s)(k := CACHE_HIT), readyQueue := rest\<rparr>)"
      by (auto simp: dispatch_def split: if_splits)
    with assms(1) show ?thesis
      by (auto simp: executingOnWorkers_def onTerminal_workerPool onTerminal_executing split: if_splits)
  next
    case False
    with assms(2) q idle have s': "s' = s\<lparr>statusOf := (statusOf s)(k := EXECUTING), readyQueue := rest,
        workerPool := (workerPool s)[worker := Some k]\<rparr>"
      by (auto simp: dispatch_def split: if_splits)
    have "Some x \<in> set ((workerPool s)[worker := Some k])" if "Some x \<in> set (workerPool s)" for x
    proof -
      from that obtain i where i: "i < length (workerPool s)" "workerPool s ! i = Some x"
        by (auto simp: in_set_conv_nth)
      with idle have "i \<noteq> worker" by auto
      with i have "(workerPool s)[worker := Some k] ! i = Some x" by simp
      with i(1) show ?thesis by (metis length_list_update nth_mem)
    qed
    moreover have "Some k \<in> set ((workerPool s)[worker := Some k])"
      using idle(1) by (simp add: set_update_memI)
    ultimately show ?thesis using assms(1) s'
      by (auto simp: executingOnWorkers_def)
  qed
qed

lemma complete_preserves:
  assumes "executingOnWorkers s" and "complete g worker succeeded s = Some s'"
  shows "executingOnWorkers s' \<and> length (workerPool s') = length (workerPool s)"
proof -
  from assms(2) obtain k where busy: "worker < length (workerPool s)" "workerPool s ! worker = Some k"
    by (auto simp: complete_def split: if_splits option.splits)
  define ended where "ended = (if succeeded then SUCCESS else FAILURE)"
  from assms(2) busy have s': "s' = onTerminal g (map (\<lambda>successor. (successor, ended)) (successors g k))
      (s\<lparr>statusOf := (statusOf s)(k := ended), workerPool := (workerPool s)[worker := None],
         failureSeen := (failureSeen s \<or> \<not> succeeded)\<rparr>)"
    by (simp add: complete_def ended_def Let_def)
  have ended: "ended \<noteq> EXECUTING" by (simp add: ended_def)
  have "Some x \<in> set ((workerPool s)[worker := None])" if "Some x \<in> set (workerPool s)" "x \<noteq> k" for x
  proof -
    from that(1) obtain i where i: "i < length (workerPool s)" "workerPool s ! i = Some x"
      by (auto simp: in_set_conv_nth)
    with busy that(2) have "i \<noteq> worker" by auto
    with i have "(workerPool s)[worker := None] ! i = Some x" by simp
    with i(1) show ?thesis by (metis length_list_update nth_mem)
  qed
  with assms(1) ended show ?thesis
    by (auto simp: s' executingOnWorkers_def onTerminal_workerPool onTerminal_executing split: if_splits)
qed

lemma step_preserves:
  "executingOnWorkers s \<Longrightarrow> step g options event s = Some s' \<Longrightarrow>
   executingOnWorkers s' \<and> length (workerPool s') = length (workerPool s)"
  by (cases event) (auto dest: dispatch_preserves complete_preserves)

lemma runStates_preserve:
  "executingOnWorkers s \<Longrightarrow> s' \<in> set (runStates g options schedule s) \<Longrightarrow>
   executingOnWorkers s' \<and> length (workerPool s') = length (workerPool s)"
proof (induction schedule arbitrary: s)
  case Nil
  then show ?case by simp
next
  case (Cons event schedule)
  show ?case
  proof (cases "s' = s")
    case True
    with Cons.prems show ?thesis by simp
  next
    case False
    with Cons.prems(2) obtain s1 where s1: "step g options event s = Some s1"
      and mem: "s' \<in> set (runStates g options schedule s1)"
      by (cases "step g options event s") auto
    from step_preserves[OF Cons.prems(1) s1] Cons.IH[OF _ mem] show ?thesis by simp
  qed
qed

lemma initial_executingOnWorkers: "executingOnWorkers (Scheduler_initial g options)"
  by (simp add: executingOnWorkers_def Scheduler_initial_def)

text \<open>Operations held by distinct slots: there are at most as many as slots.\<close>

lemma executing_bounded_by_pool:
  assumes "executingOnWorkers s"
  shows "card {k. statusOf s k = EXECUTING} \<le> length (workerPool s)"
    and "finite {k. statusOf s k = EXECUTING}"
proof -
  have sub: "{k. statusOf s k = EXECUTING} \<subseteq> the ` set (workerPool s)"
    using assms by (force simp: executingOnWorkers_def)
  then show "finite {k. statusOf s k = EXECUTING}"
    by (rule finite_subset) simp
  from sub have "card {k. statusOf s k = EXECUTING} \<le> card (the ` set (workerPool s))"
    by (intro card_mono) simp_all
  also have "\<dots> \<le> card (set (workerPool s))" by (rule card_image_le) simp
  also have "\<dots> \<le> length (workerPool s)" by (rule card_length)
  finally show "card {k. statusOf s k = EXECUTING} \<le> length (workerPool s)" .
qed

lemma executingCount_card: 
  assumes "finite {k. statusOf s k = EXECUTING}"
  shows "executingCount g s \<le> card {k. statusOf s k = EXECUTING}"
proof -
  have "distinct [k \<leftarrow> keys g. statusOf s k = EXECUTING]"
    by (simp add: keys_def)
  then have "executingCount g s = card (set [k \<leftarrow> keys g. statusOf s k = EXECUTING])"
    unfolding executingCount_def by (rule distinct_card[symmetric])
  also have "\<dots> \<le> card {k. statusOf s k = EXECUTING}"
    using assms by (intro card_mono) auto
  finally show ?thesis .
qed

text \<open>
  C8. In every state that a run goes through, whatever the graph, the options and the
  sequence of events, the number of operations that are \<open>EXECUTING\<close> is at most
  \<open>maxConcurrency\<close>: counted over the operations of the graph, and counted over all keys.
\<close>

theorem executing_never_exceeds_maxConcurrency:
  assumes "s \<in> set (runStates g options schedule (Scheduler_initial g options))"
  shows "executingCount g s \<le> maxConcurrency options
    \<and> card {k. statusOf s k = EXECUTING} \<le> maxConcurrency options"
proof -
  from runStates_preserve[OF initial_executingOnWorkers assms]
  have inv: "executingOnWorkers s" and "length (workerPool s) = maxConcurrency options"
    by (simp_all add: Scheduler_initial_def)
  with executing_bounded_by_pool[OF inv] executingCount_card[of s g] show ?thesis
    by simp
qed

lemma runStates_nonempty: "runStates g options schedule s \<noteq> []"
  by (cases schedule) simp_all

theorem executing_never_exceeds_maxConcurrency_witness:
  "map (executingCount fixture_graph)
      (runStates fixture_graph fixture_run_options fixture_schedule
         (Scheduler_initial fixture_graph fixture_run_options)) = [0, 1, 2, 1, 2]
   \<and> executingCount fixture_graph
        (last (runStates fixture_graph fixture_run_options fixture_schedule
           (Scheduler_initial fixture_graph fixture_run_options)))
      \<le> maxConcurrency fixture_run_options
   \<and> maxConcurrency fixture_run_options = 2"
proof -
  let ?states = "runStates fixture_graph fixture_run_options fixture_schedule
      (Scheduler_initial fixture_graph fixture_run_options)"
  have "last ?states \<in> set ?states"
    by (rule last_in_set) (rule runStates_nonempty)
  from executing_never_exceeds_maxConcurrency[OF this]
  have "executingCount fixture_graph (last ?states) \<le> maxConcurrency fixture_run_options"
    by simp
  moreover have "map (executingCount fixture_graph) ?states = [0, 1, 2, 1, 2]"
    by (simp add: fixture_graph_def fixture_run_options_def fixture_schedule_def
        Scheduler_initial_def keys_def predecessorsOf_def successors_def noPredecessorFailed_def
        dispatch_def complete_def executingCount_def Let_def)
  moreover have "maxConcurrency fixture_run_options = 2"
    by (simp add: fixture_run_options_def)
  ultimately show ?thesis by simp
qed

end
